theory Spec2Isabelle
  imports Main
begin

section \<open>Go values shared by the two packages\<close>

text \<open>
  A Go byte slice and a Go string are both modelled as a list of characters (bytes);
  the nil slice is the empty list (Go's \<open>len\<close> and \<open>range\<close> do not tell them apart).
  A Go \<open>error\<close> is its message; \<open>fmt.Errorf\<close> with \<open>%v\<close> or \<open>%w\<close> splices the
  message of the error it is given into the new message.
\<close>

type_synonym bytes = string

datatype error = Error (msg: string)

text \<open>
  A Go call either returns or panics. What the source does at a nil pointer or at an
  index out of range is the value \<open>Panic\<close>, never an unspecified HOL value.
\<close>

datatype 'a go = Panic | Ret 'a

section \<open>common.Get: the retrying fetch\<close>

text \<open>
  One attempt of \<open>client.Get(url)\<close> of net/http yields a response and an error.
  By the contract of net/http a nil error comes with a non-nil response
  (\<open>Responded\<close>), an error normally comes with a nil response (\<open>Failed\<close>), and only
  a failed redirect check yields both (\<open>FailedWithResponse\<close>).
  The body of a response is given by what \<open>io.ReadAll(resp.Body)\<close> returns for it: the
  bytes read and the read error, if any.
\<close>

record response =
  StatusCode :: int
  Body :: "bytes \<times> error option"

datatype attempt =
    Responded response
  | Failed error
  | FailedWithResponse response error

text \<open>The two variables \<open>resp\<close> and \<open>err\<close> of \<open>Get\<close> after an attempt.\<close>

fun resp_of :: "attempt \<Rightarrow> response option" where
  "resp_of (Responded r) = Some r"
| "resp_of (Failed e) = None"
| "resp_of (FailedWithResponse r e) = Some r"

fun err_of :: "attempt \<Rightarrow> error option" where
  "err_of (Responded r) = None"
| "err_of (Failed e) = Some e"
| "err_of (FailedWithResponse r e) = Some e"

text \<open>
  The network is a function from the number of the attempt (counted over the whole run,
  the \<open>clock\<close>) and the URL to the outcome of that attempt: any sequence of outcomes
  can be given. Every attempt advances the clock by one.
\<close>

type_synonym network = "nat \<Rightarrow> string \<Rightarrow> attempt"

text \<open>
  The loop \<open>for i := 0; i < maxRetries; i++\<close> of \<open>Get\<close>, with \<open>n\<close> the number of
  iterations still to run. It carries \<open>resp\<close> and \<open>err\<close> as \<open>(resp, err)\<close>; both are
  assigned by every attempt. The loop is left at the first attempt with a nil error and
  status 200. The log lines and the sleep of \<open>i + 1\<close> seconds after a failed attempt
  change no value.
\<close>

fun get_attempts ::
  "network \<Rightarrow> string \<Rightarrow> nat \<Rightarrow> nat \<Rightarrow> response option \<times> error option
    \<Rightarrow> (response option \<times> error option) \<times> nat" where
  "get_attempts net url 0 clock vars = (vars, clock)"
| "get_attempts net url (Suc n) clock vars =
     (let a = net clock url in
      (case a of
         Responded r \<Rightarrow>
           if StatusCode r = 200 then ((resp_of a, err_of a), Suc clock)
           else get_attempts net url n (Suc clock) (resp_of a, err_of a)
       | _ \<Rightarrow> get_attempts net url n (Suc clock) (resp_of a, err_of a)))"

text \<open>
  \<open>Get\<close>: \<open>resp\<close> and \<open>err\<close> start as nil, the loop runs at most \<open>maxRetries\<close>
  times (not at all when \<open>maxRetries \<le> 0\<close>), then \<open>defer resp.Body.Close()\<close> reads
  the field \<open>Body\<close> of \<open>resp\<close>: with \<open>resp\<close> nil this is a nil pointer dereference,
  a panic. Otherwise the result is that of \<open>io.ReadAll(resp.Body)\<close>.
  The timeout only bounds the duration of an attempt.
\<close>

definition Get ::
  "network \<Rightarrow> string \<Rightarrow> int \<Rightarrow> int \<Rightarrow> nat \<Rightarrow> (bytes \<times> error option) go \<times> nat" where
  "Get net url timeout maxRetries clock =
     (let (vars, clock') = get_attempts net url (nat maxRetries) clock (None, None) in
      (case fst vars of
         None \<Rightarrow> (Panic, clock')
       | Some resp \<Rightarrow> (Ret (Body resp), clock')))"

section \<open>Formatting and parsing decimal numbers\<close>

text \<open>
  \<open>fmt.Sprintf("%v", n)\<close> for an unsigned and for a signed integer: the decimal digits,
  with a leading minus sign for a negative number.
\<close>

definition digit_char :: "nat \<Rightarrow> char" where
  "digit_char d = ''0123456789'' ! d"

function show_uint :: "nat \<Rightarrow> string" where
  "show_uint n = (if n < 10 then [digit_char n] else show_uint (n div 10) @ [digit_char (n mod 10)])"
  by pat_completeness auto
termination
  by (relation "measure id") auto

definition show_int :: "int \<Rightarrow> string" where
  "show_int i = (if i < 0 then CHR ''-'' # show_uint (nat (- i)) else show_uint (nat i))"

text \<open>
  Go's \<open>int\<close> is taken as 64 bits wide (as on every 64-bit platform); an addition that
  leaves the range wraps around, it does not panic.
\<close>

definition wrap_int :: "int \<Rightarrow> int" where
  "wrap_int i = (i + 2 ^ 63) mod 2 ^ 64 - 2 ^ 63"

text \<open>
  \<open>strconv.Atoi\<close> of the Go standard library, as \<open>GetFile\<close> uses it: the error is
  dropped and only the value is kept. The input is an optional sign and then decimal
  digits. On a syntax error (no digits, or a character that is no digit) the value is 0;
  a value outside the range of \<open>int\<close> is replaced by the nearest bound.
\<close>

definition is_digit :: "char \<Rightarrow> bool" where
  "is_digit c = (c \<in> set ''0123456789'')"

definition digit_val :: "char \<Rightarrow> nat" where
  "digit_val c = of_char c - 48"

definition digits_val :: "string \<Rightarrow> nat" where
  "digits_val ds = fold (\<lambda>c n. n * 10 + digit_val c) ds 0"

definition split_sign :: "string \<Rightarrow> bool \<times> string" where
  "split_sign s =
     (case s of
        [] \<Rightarrow> (False, [])
      | c # r \<Rightarrow> if c = CHR ''-'' then (True, r) else if c = CHR ''+'' then (False, r) else (False, s))"

definition Atoi :: "string \<Rightarrow> int" where
  "Atoi s =
     (let (neg, ds) = split_sign s in
      if ds = [] \<or> \<not> list_all is_digit ds then 0
      else
        let un = digits_val ds in
        if neg then (if un > 2 ^ 63 then - (2 ^ 63) else - int un)
        else (if un \<ge> 2 ^ 63 then 2 ^ 63 - 1 else int un))"

text \<open>
  For stating what \<open>GetFile\<close> computes: a decimal integer string is an optional sign
  followed by one or more digits; its value is the integer it denotes; an integer fits
  an \<open>int\<close> when it lies in the 64-bit range.
\<close>

definition decimal_string :: "string \<Rightarrow> bool" where
  "decimal_string s = (snd (split_sign s) \<noteq> [] \<and> list_all is_digit (snd (split_sign s)))"

definition decimal_value :: "string \<Rightarrow> int" where
  "decimal_value s =
     (if fst (split_sign s) then - int (digits_val (snd (split_sign s)))
      else int (digits_val (snd (split_sign s))))"

definition fits_int :: "int \<Rightarrow> bool" where
  "fits_int i = (- (2 ^ 63) \<le> i \<and> i < 2 ^ 63)"

section \<open>common: the request configuration and the capture record\<close>

text \<open>
  A \<open>time.Time\<close> is an instant, counted from the zero time (January 1, year 1,
  00:00:00 UTC), and a location. \<open>IsZero\<close>, \<open>After\<close> and \<open>Before\<close> compare instants
  and ignore the location; \<open>Format\<close> prints the date in the location, so it reads both.
\<close>

record time =
  instant :: int
  location :: string

definition IsZero :: "time \<Rightarrow> bool" where
  "IsZero t = (instant t = 0)"

definition After :: "time \<Rightarrow> time \<Rightarrow> bool" where
  "After t u = (instant t > instant u)"

definition Before :: "time \<Rightarrow> time \<Rightarrow> bool" where
  "Before t u = (instant t < instant u)"

text \<open>
  \<open>CdxResponse\<close>. Its field \<open>Source\<close> holds a value of the interface \<open>Source\<close>, nil
  in a fresh struct: the record is polymorphic in the provider type. The field
  \<open>StatusCode\<close> is written \<open>StatusCode'\<close>, the unprimed name being the field of the
  HTTP response.
\<close>

record 'src CdxResponse =
  Urlkey :: string
  Timestamp :: string
  Charset :: string
  MimeType :: string
  Languages :: string
  MimeDetected :: string
  Digest :: string
  Offset :: string
  Original :: string
  Length :: string
  StatusCode' :: string
  Filename :: string
  Source :: "'src option"

record RequestConfig =
  URL :: string
  Filters :: "string list"
  Limit :: nat
  CollapseColumn :: string
  SinglePage :: bool
  FromDate :: time
  ToDate :: time

text \<open>
  \<open>GetUrl\<close>. Every \<open>reqURL = fmt.Sprintf("%v&...=%v", reqURL, x)\<close> appends to the
  string built so far; the loop over \<open>config.Filters\<close> is a fold.
  \<open>Format\<close> stands for \<open>t.Format("20060102")\<close> of the standard library.
\<close>

definition GetUrl :: "(time \<Rightarrow> string) \<Rightarrow> RequestConfig \<Rightarrow> string \<Rightarrow> int \<Rightarrow> string" where
  "GetUrl Format config serverURL page =
     (let reqURL = serverURL @ ''?url='' @ URL config @ ''&output=json'';
          reqURL = (if Limit config \<noteq> 0 then reqURL @ ''&limit='' @ show_uint (Limit config)
                    else reqURL);
          reqURL = (if CollapseColumn config \<noteq> '''' then reqURL @ ''&collapse='' @ CollapseColumn config
                    else reqURL);
          reqURL = fold (\<lambda>filter reqURL. if filter \<noteq> '''' then reqURL @ ''&filter='' @ filter
                                          else reqURL) (Filters config) reqURL;
          reqURL = (if \<not> IsZero (FromDate config) then reqURL @ ''&from='' @ Format (FromDate config)
                    else reqURL);
          reqURL = (if \<not> IsZero (ToDate config) then reqURL @ ''&to='' @ Format (ToDate config)
                    else reqURL);
          reqURL = (if \<not> SinglePage config then reqURL @ ''&page='' @ show_int page
                    else reqURL)
      in reqURL)"

section \<open>common.DoRequest: the single attempt with headers\<close>

text \<open>
  The request handed to the fasthttp client, and what \<open>client.DoTimeout\<close> makes of it:
  an error, or a response with a status and a body (\<open>None\<close> for a nil body).
  \<open>DoTimeout\<close> and the random User-Agent of \<open>uarand.GetRandom()\<close> are parameters.
  The header map of the caller is a map; \<open>req.Header.Set\<close> overrides per key.
\<close>

record request =
  RequestURI :: string
  Method :: string
  Header :: "string \<rightharpoonup> string"

record fasthttp_response =
  RespStatusCode :: int
  RespBody :: "bytes option"

definition Status503Error :: error where
  "Status503Error = Error ''Server returned 503 status response''"

definition Status500Error :: error where
  "Status500Error = Error ''Server returned 500 status response. (Slow down)''"

definition go_len :: "bytes option \<Rightarrow> nat" where
  "go_len b = (case b of None \<Rightarrow> 0 | Some s \<Rightarrow> length s)"

definition go_bytes :: "bytes option \<Rightarrow> bytes" where
  "go_bytes b = (case b of None \<Rightarrow> [] | Some s \<Rightarrow> s)"

text \<open>\<open>DoRequest\<close> returns the request it issued beside its two results.\<close>

definition DoRequest ::
  "(request \<Rightarrow> int \<Rightarrow> error + fasthttp_response) \<Rightarrow> string \<Rightarrow> string \<Rightarrow> int \<Rightarrow> (string \<rightharpoonup> string)
     \<Rightarrow> request \<times> bytes \<times> error option" where
  "DoRequest DoTimeout userAgent url timeout headers =
     (let req = \<lparr>RequestURI = url, Method = ''GET'',
                 Header = [''User-Agent'' \<mapsto> userAgent] ++ headers\<rparr> in
      (case DoTimeout req timeout of
         Inl err \<Rightarrow> (req, [], Some (Error (''[GetRequest] Error making request: '' @ msg err)))
       | Inr resp \<Rightarrow>
           if RespStatusCode resp = 500 then (req, [], Some Status500Error)
           else if RespStatusCode resp = 503 then (req, go_bytes (RespBody resp), Some Status503Error)
           else if go_len (RespBody resp) > 0 then (req, go_bytes (RespBody resp), None)
           else if RespStatusCode resp \<noteq> 200 then
             (req, [], Some (Error (''[GetRequest] Got '' @ show_int (RespStatusCode resp) @ '' status response'')))
           else if RespBody resp = None then
             (req, [], Some (Error ''[GetRequest] Response body is empty''))
           else (req, go_bytes (RespBody resp), None)))"

section \<open>commoncrawl: the provider\<close>

definition INDEX_SERVER :: string where
  "INDEX_SERVER = ''https://index.commoncrawl.org/''"

definition CRAWL_STORAGE :: string where
  "CRAWL_STORAGE = ''https://data.commoncrawl.org/''"

text \<open>
  \<open>latestIndex\<close>, one entry of collinfo.json. The field \<open>Id\<close> is written \<open>Id'\<close>
  (\<open>Id\<close> is the identity relation of HOL).
\<close>

record latestIndex =
  Id' :: string
  Name :: string
  Timegate :: string
  CdxAPI :: string
  From :: time
  To :: time

record numPagesResponse =
  Pages :: int
  PageSize :: int
  Blocks :: int

record CommonCrawl =
  MaxTimeout :: int
  MaxRetries :: int
  indexes :: "latestIndex list"

text \<open>
  What the provider takes from outside the repository: the network behind
  \<open>client.Get\<close>, \<open>jsoniter.Unmarshal\<close> into a \<open>CdxResponse\<close> and into a
  \<open>numPagesResponse\<close> (each an error or the decoded struct), and the date layout of
  \<open>time.Format\<close>.
\<close>

record libs =
  client_Get :: network
  json_Cdx :: "bytes \<Rightarrow> error + CommonCrawl CdxResponse"
  json_NumPages :: "bytes \<Rightarrow> error + numPagesResponse"
  time_Format :: "time \<Rightarrow> string"

subsection \<open>GetNumPagesIndex and GetNumPages\<close>

definition GetNumPagesIndex ::
  "libs \<Rightarrow> CommonCrawl \<Rightarrow> string \<Rightarrow> string \<Rightarrow> nat \<Rightarrow> (int \<times> error option) go \<times> nat" where
  "GetNumPagesIndex L cc url index clock =
     (let requestURI = INDEX_SERVER @ index @ ''-index?url='' @ url @ ''&showNumPages=true'' in
      (case Get (client_Get L) requestURI (MaxTimeout cc) (MaxRetries cc) clock of
         (Panic, clock') \<Rightarrow> (Panic, clock')
       | (Ret (response, err), clock') \<Rightarrow>
           (case err of
              Some e \<Rightarrow>
                (Ret (0, Some (Error (''[GetNumPagesIndex] Request error: '' @ msg e))), clock')
            | None \<Rightarrow>
                (case json_NumPages L response of
                   Inl e \<Rightarrow>
                     (Ret (0, Some (Error (''[GetNumPagesIndex] JSON decode error: '' @ msg e))), clock')
                 | Inr numPagesResp \<Rightarrow> (Ret (Pages numPagesResp, None), clock')))))"

text \<open>\<open>cc.indexes[0]\<close> panics on an empty slice.\<close>

definition GetNumPages ::
  "libs \<Rightarrow> CommonCrawl \<Rightarrow> string \<Rightarrow> nat \<Rightarrow> (int \<times> error option) go \<times> nat" where
  "GetNumPages L cc url clock =
     (case indexes cc of
        [] \<Rightarrow> (Panic, clock)
      | idx # _ \<Rightarrow> GetNumPagesIndex L cc url (Id' idx) clock)"

subsection \<open>ParseResponse\<close>

text \<open>
  \<open>bytes.Split(s, sep)\<close> for a separator of one byte: cut at every separator; a slice
  without separator (the empty one too) gives one piece.
\<close>

function Split :: "bytes \<Rightarrow> char \<Rightarrow> bytes list" where
  "Split s sep =
     (if sep \<in> set s
      then takeWhile (\<lambda>c. c \<noteq> sep) s # Split (tl (dropWhile (\<lambda>c. c \<noteq> sep) s)) sep
      else [s])"
  by pat_completeness auto
termination
proof (relation "measure (\<lambda>(s, sep). length s)")
  show "wf (measure (\<lambda>(s, sep). length s))"
    by simp
next
  fix s :: bytes and sep :: char
  assume "sep \<in> set s"
  then have "dropWhile (\<lambda>c. c \<noteq> sep) s \<noteq> []"
    by (auto simp: dropWhile_eq_Nil_conv)
  then have "length (tl (dropWhile (\<lambda>c. c \<noteq> sep) s)) < length (dropWhile (\<lambda>c. c \<noteq> sep) s)"
    by (cases "dropWhile (\<lambda>c. c \<noteq> sep) s") simp_all
  also have "\<dots> \<le> length s"
    by (rule length_dropWhile_le)
  finally show "((tl (dropWhile (\<lambda>c. c \<noteq> sep) s), sep), (s, sep)) \<in> measure (\<lambda>(s, sep). length s)"
    by simp
qed

text \<open>The slice expression \<open>s[:n]\<close>: a panic unless \<open>0 \<le> n \<le> len(s)\<close>.\<close>

definition slice_to :: "bytes \<Rightarrow> int \<Rightarrow> bytes go" where
  "slice_to s n = (if 0 \<le> n \<and> n \<le> int (length s) then Ret (take (nat n) s) else Panic)"

definition newline :: char where
  "newline = CHR 0x0A"

text \<open>
  The loop of \<open>ParseResponse\<close> over the lines, \<open>pages\<close> being the slice built so far.
  \<open>Unmarshal\<close> decodes into a fresh \<open>indexVal\<close>; at the first error the function
  returns nil and the error, whose message ends with the line.
\<close>

fun decode_lines ::
  "(bytes \<Rightarrow> error + 'src CdxResponse) \<Rightarrow> 'src \<Rightarrow> bytes list \<Rightarrow> 'src CdxResponse list
     \<Rightarrow> 'src CdxResponse list \<times> error option" where
  "decode_lines Unmarshal cc [] pages = (pages, None)"
| "decode_lines Unmarshal cc (line # lines) pages =
     (case Unmarshal line of
        Inl err \<Rightarrow>
          ([], Some (Error (''[ParseResponse] Cannot decode JSON line: '' @ msg err
                            @ ''. Response: '' @ line)))
      | Inr indexVal \<Rightarrow>
          decode_lines Unmarshal cc lines (pages @ [indexVal\<lparr>Source := Some cc\<rparr>]))"

definition ParseResponse ::
  "(bytes \<Rightarrow> error + 'src CdxResponse) \<Rightarrow> 'src \<Rightarrow> bytes
     \<Rightarrow> ('src CdxResponse list \<times> error option) go" where
  "ParseResponse Unmarshal cc resp =
     (if length resp = 0 then Ret ([], Some (Error ''Empty response provided''))
      else
        (case slice_to resp (int (length resp) - 1) of
           Panic \<Rightarrow> Panic
         | Ret s \<Rightarrow> Ret (decode_lines Unmarshal cc (Split s newline) [])))"

subsection \<open>GetPagesIndex and GetPages\<close>

text \<open>
  The loop \<open>for page := 0; page < pages; page++\<close> of \<open>GetPagesIndex\<close>, with the
  variables \<open>results\<close> and \<open>numResults\<close> and the clock of the network.
\<close>

function get_pages_loop ::
  "libs \<Rightarrow> CommonCrawl \<Rightarrow> RequestConfig \<Rightarrow> string \<Rightarrow> int \<Rightarrow> int
     \<Rightarrow> CommonCrawl CdxResponse list \<Rightarrow> nat \<Rightarrow> nat
     \<Rightarrow> (CommonCrawl CdxResponse list \<times> error option) go \<times> nat" where
  "get_pages_loop L cc config index pages page results numResults clock =
     (if page < pages then
        (let indexURL = INDEX_SERVER @ index @ ''-index'';
             reqURL = GetUrl (time_Format L) config indexURL page in
         (case Get (client_Get L) reqURL (MaxTimeout cc) (MaxRetries cc) clock of
            (Panic, clock') \<Rightarrow> (Panic, clock')
          | (Ret (response, err), clock') \<Rightarrow>
              (case err of
                 Some e \<Rightarrow>
                   (Ret (results, Some (Error (''[GetPagesIndex] Request error: '' @ msg e))), clock')
               | None \<Rightarrow>
                   (case ParseResponse (json_Cdx L) cc response of
                      Panic \<Rightarrow> (Panic, clock')
                    | Ret (parsedResponse, perr) \<Rightarrow>
                        (case perr of
                           Some e \<Rightarrow>
                             (Ret (results,
                                Some (Error (''[GetPagesIndex] Cannot parse response: '' @ msg e))),
                              clock')
                         | None \<Rightarrow>
                             (let results' = results @ parsedResponse;
                                  numResults' = numResults + length parsedResponse in
                              if Limit config \<noteq> 0 \<and> numResults' \<ge> Limit config
                              then (Ret (results', None), clock')
                              else get_pages_loop L cc config index pages (page + 1)
                                     results' numResults' clock'))))))
      else (Ret (results, None), clock))"
  by pat_completeness auto
termination
  by (relation "measure (\<lambda>(L, cc, config, index, pages, page, results, numResults, clock).
                   nat (pages - page))") auto

definition GetPagesIndex ::
  "libs \<Rightarrow> CommonCrawl \<Rightarrow> RequestConfig \<Rightarrow> string \<Rightarrow> nat
     \<Rightarrow> (CommonCrawl CdxResponse list \<times> error option) go \<times> nat" where
  "GetPagesIndex L cc config index clock =
     (if SinglePage config then get_pages_loop L cc config index 1 0 [] 0 clock
      else
        (case GetNumPagesIndex L cc (URL config) index clock of
           (Panic, clock') \<Rightarrow> (Panic, clock')
         | (Ret (pages, err), clock') \<Rightarrow>
             (case err of
                Some e \<Rightarrow> (Ret ([], Some e), clock')
              | None \<Rightarrow> get_pages_loop L cc config index pages 0 [] 0 clock')))"

definition GetPages ::
  "libs \<Rightarrow> CommonCrawl \<Rightarrow> RequestConfig \<Rightarrow> nat
     \<Rightarrow> (CommonCrawl CdxResponse list \<times> error option) go \<times> nat" where
  "GetPages L cc config clock =
     (case indexes cc of
        [] \<Rightarrow> (Panic, clock)
      | idx # _ \<Rightarrow> GetPagesIndex L cc config (Id' idx) clock)"

subsection \<open>filterIndices\<close>

text \<open>The loop of \<open>filterIndices\<close> over \<open>cc.indexes\<close>, \<open>indices\<close> being the slice built so far.\<close>

fun filter_loop :: "RequestConfig \<Rightarrow> latestIndex list \<Rightarrow> string list \<Rightarrow> string list" where
  "filter_loop config [] indices = indices"
| "filter_loop config (idx # rest) indices =
     (if \<not> IsZero (FromDate config) \<and> After (FromDate config) (From idx)
      then filter_loop config rest indices
      else if \<not> IsZero (ToDate config) \<and> Before (ToDate config) (To idx)
      then filter_loop config rest indices
      else filter_loop config rest (indices @ [Id' idx]))"

definition filterIndices :: "CommonCrawl \<Rightarrow> RequestConfig \<Rightarrow> string list go" where
  "filterIndices cc config =
     (if IsZero (FromDate config) \<and> IsZero (ToDate config) then
        (case indexes cc of
           [] \<Rightarrow> Panic
         | idx # _ \<Rightarrow> Ret [Id' idx])
      else Ret (filter_loop config (indexes cc) []))"

subsection \<open>FetchPages\<close>

text \<open>
  \<open>FetchPages\<close> returns nothing: what it does is send on its two channels. The model
  keeps the sends in their order (a receiver is taken to be present for each), and how the
  call ends: the loops run to their end, the early \<open>return\<close> at the limit, or a panic.
  The state of the loops is \<open>(sent, numResults, clock)\<close>.
\<close>

datatype event =
    ErrorSent error
  | ResultsSent "CommonCrawl CdxResponse list"

datatype ending = Finished | LimitReached | Panicked

type_synonym fetch_state = "event list \<times> nat \<times> nat"

text \<open>
  The body of the loop over the pages, for one page. \<open>Finished\<close> says that the body ran
  to its end. After a request error the body goes on to decode \<open>response\<close>, and after
  either error it goes on to count and send \<open>parsedResponse\<close>.
\<close>

definition fetch_page ::
  "libs \<Rightarrow> CommonCrawl \<Rightarrow> RequestConfig \<Rightarrow> string \<Rightarrow> int \<Rightarrow> fetch_state
     \<Rightarrow> ending \<times> fetch_state" where
  "fetch_page L cc config indexURL page st =
     (case st of (sent, numResults, clock) \<Rightarrow>
        (let reqURL = GetUrl (time_Format L) config indexURL page in
         (case Get (client_Get L) reqURL (MaxTimeout cc) (MaxRetries cc) clock of
            (Panic, clock') \<Rightarrow> (Panicked, sent, numResults, clock')
          | (Ret (response, err), clock') \<Rightarrow>
              (let sent = (case err of
                             None \<Rightarrow> sent
                           | Some e \<Rightarrow>
                               sent @ [ErrorSent (Error (''[FetchPages] Request error: '' @ msg e))]) in
               (case ParseResponse (json_Cdx L) cc response of
                  Panic \<Rightarrow> (Panicked, sent, numResults, clock')
                | Ret (parsedResponse, perr) \<Rightarrow>
                    (let sent = (case perr of
                                   None \<Rightarrow> sent
                                 | Some e \<Rightarrow>
                                     sent @ [ErrorSent
                                       (Error (''[FetchPages] Cannot parse response: '' @ msg e))]);
                         numResults = numResults + length parsedResponse;
                         sent = sent @ [ResultsSent parsedResponse] in
                     if Limit config \<noteq> 0 \<and> numResults \<ge> Limit config
                     then (LimitReached, sent, numResults, clock')
                     else (Finished, sent, numResults, clock')))))))"

text \<open>The loop \<open>for page := 0; page < pages; page++\<close> of \<open>FetchPages\<close>.\<close>

function fetch_pages_loop ::
  "libs \<Rightarrow> CommonCrawl \<Rightarrow> RequestConfig \<Rightarrow> string \<Rightarrow> int \<Rightarrow> int \<Rightarrow> fetch_state
     \<Rightarrow> ending \<times> fetch_state" where
  "fetch_pages_loop L cc config indexURL pages page st =
     (if page < pages then
        (case fetch_page L cc config indexURL page st of
           (Finished, st') \<Rightarrow> fetch_pages_loop L cc config indexURL pages (page + 1) st'
         | (LimitReached, st') \<Rightarrow> (LimitReached, st')
         | (Panicked, st') \<Rightarrow> (Panicked, st'))
      else (Finished, st))"
  by pat_completeness auto
termination
  by (relation "measure (\<lambda>(L, cc, config, indexURL, pages, page, st). nat (pages - page))") auto

text \<open>
  The loop over the selected indices. \<open>pages\<close> is 1 for a single page; otherwise it is
  what \<open>GetNumPagesIndex\<close> returns, 0 beside an error, and the error is sent.
\<close>

fun fetch_indices ::
  "libs \<Rightarrow> CommonCrawl \<Rightarrow> RequestConfig \<Rightarrow> string list \<Rightarrow> fetch_state \<Rightarrow> ending \<times> fetch_state" where
  "fetch_indices L cc config [] st = (Finished, st)"
| "fetch_indices L cc config (idx # rest) (sent, numResults, clock) =
     (case (if \<not> SinglePage config then GetNumPagesIndex L cc (URL config) idx clock
            else (Ret (1, None), clock)) of
        (Panic, clock') \<Rightarrow> (Panicked, sent, numResults, clock')
      | (Ret (pages, err), clock') \<Rightarrow>
          (let sent = (case err of None \<Rightarrow> sent | Some e \<Rightarrow> sent @ [ErrorSent e]);
               indexURL = INDEX_SERVER @ idx @ ''-index'' in
           (case fetch_pages_loop L cc config indexURL pages 0 (sent, numResults, clock') of
              (Finished, st') \<Rightarrow> fetch_indices L cc config rest st'
            | (LimitReached, st') \<Rightarrow> (LimitReached, st')
            | (Panicked, st') \<Rightarrow> (Panicked, st'))))"

definition FetchPages ::
  "libs \<Rightarrow> CommonCrawl \<Rightarrow> RequestConfig \<Rightarrow> nat \<Rightarrow> ending \<times> fetch_state" where
  "FetchPages L cc config clock =
     (case filterIndices cc config of
        Panic \<Rightarrow> (Panicked, [], 0, clock)
      | Ret indices \<Rightarrow> fetch_indices L cc config indices ([], 0, clock))"

subsection \<open>GetFile\<close>

text \<open>
  \<open>GetFile\<close> returns the request it issued beside its two results. The WARC reader of
  github.com/slyrz/warc is a parameter in three parts: \<open>NewReader\<close>, \<open>ReadRecord\<close> and
  \<open>io.ReadAll\<close> of the content of the record.
\<close>

definition GetFile ::
  "(request \<Rightarrow> int \<Rightarrow> error + fasthttp_response) \<Rightarrow> string
     \<Rightarrow> (bytes \<Rightarrow> error + 'reader) \<Rightarrow> ('reader \<Rightarrow> error + 'rec) \<Rightarrow> ('rec \<Rightarrow> bytes \<times> error option)
     \<Rightarrow> CommonCrawl \<Rightarrow> 'src CdxResponse \<Rightarrow> request \<times> bytes \<times> error option" where
  "GetFile DoTimeout userAgent NewReader ReadRecord ReadAll cc page =
     (let offset = Atoi (Offset page);
          length = Atoi (Length page);
          offsetEnd = wrap_int (wrap_int (offset + length) + 1);
          headers = [''Range'' \<mapsto> ''bytes='' @ Offset page @ ''-'' @ show_int offsetEnd] in
      (case DoRequest DoTimeout userAgent (CRAWL_STORAGE @ Filename page) (MaxTimeout cc) headers of
         (req, resp, err) \<Rightarrow>
           (case err of
              Some e \<Rightarrow> (req, [], Some (Error (''[GetFile] Request error: '' @ msg e)))
            | None \<Rightarrow>
                (case NewReader resp of
                   Inl e \<Rightarrow> (req, [], Some (Error (''[GetFile] Cannot decode WARC: '' @ msg e)))
                 | Inr reader \<Rightarrow>
                     (case ReadRecord reader of
                        Inl e \<Rightarrow> (req, [], Some (Error (''[GetFile] Cannot decode WARC: '' @ msg e)))
                      | Inr record \<Rightarrow> (case ReadAll record of (content, cerr) \<Rightarrow> (req, content, cerr)))))))"

section \<open>Stubs and inputs for the examples\<close>

text \<open>
  A decoder for the examples: it knows two lines and refuses every other one. The records
  hold the three fields the lines give and the empty string elsewhere, as a fresh struct
  does.
\<close>

definition example_record :: "string \<Rightarrow> string \<Rightarrow> string \<Rightarrow> 'src CdxResponse" where
  "example_record u off len =
     \<lparr>Urlkey = '''', Timestamp = '''', Charset = '''', MimeType = '''', Languages = '''',
      MimeDetected = '''', Digest = '''', Offset = off, Original = u, Length = len,
      StatusCode' = '''', Filename = '''', Source = None\<rparr>"

definition line_a :: bytes where
  "line_a = ''{\"url\":\"a\",\"offset\":\"100\",\"length\":\"50\"}''"

definition line_b :: bytes where
  "line_b = ''{\"url\":\"b\",\"offset\":\"7\",\"length\":\"9\"}''"

definition example_Unmarshal :: "bytes \<Rightarrow> error + 'src CdxResponse" where
  "example_Unmarshal line =
     (if line = line_a then Inr (example_record ''a'' ''100'' ''50'')
      else if line = line_b then Inr (example_record ''b'' ''7'' ''9'')
      else Inl (Error ''invalid json''))"

definition example_cc :: CommonCrawl where
  "example_cc = \<lparr>MaxTimeout = 30, MaxRetries = 3, indexes = []\<rparr>"

text \<open>
  Times for the examples are in UTC, with instants in seconds. The date layout for the
  examples knows the first instant of 2023, in UTC and in New York (where that instant is
  still in 2022).
\<close>

definition utc :: "int \<Rightarrow> time" where
  "utc i = \<lparr>instant = i, location = ''UTC''\<rparr>"

definition example_Format :: "time \<Rightarrow> string" where
  "example_Format t =
     (if t = utc 63808128000 then ''20230101''
      else if t = \<lparr>instant = 63808128000, location = ''America/New_York''\<rparr> then ''20221231''
      else ''00010101'')"

definition example_config :: RequestConfig where
  "example_config =
     \<lparr>URL = ''example.com/*'', Filters = ['''', ''mime:text/html''], Limit = 5,
      CollapseColumn = ''urlkey'', SinglePage = False,
      FromDate = utc 63808128000, ToDate = utc 0\<rparr>"

text \<open>A catalog of three snapshots, newest first, with small instants, and two queries.\<close>

definition example_catalog :: CommonCrawl where
  "example_catalog =
     \<lparr>MaxTimeout = 30, MaxRetries = 3,
      indexes =
        [\<lparr>Id' = ''CC-MAIN-2023-50'', Name = ''December'', Timegate = '''', CdxAPI = '''',
          From = utc 300, To = utc 310\<rparr>,
         \<lparr>Id' = ''CC-MAIN-2023-40'', Name = ''October'', Timegate = '''', CdxAPI = '''',
          From = utc 200, To = utc 210\<rparr>,
         \<lparr>Id' = ''CC-MAIN-2023-23'', Name = ''June'', Timegate = '''', CdxAPI = '''',
          From = utc 100, To = utc 110\<rparr>]\<rparr>"

definition query_no_dates :: RequestConfig where
  "query_no_dates =
     \<lparr>URL = ''example.com'', Filters = [], Limit = 0, CollapseColumn = '''',
      SinglePage = True, FromDate = utc 0, ToDate = utc 0\<rparr>"

definition query_window :: RequestConfig where
  "query_window = query_no_dates\<lparr>FromDate := utc 150, ToDate := utc 250\<rparr>"

definition query_from :: RequestConfig where
  "query_from = query_no_dates\<lparr>FromDate := utc 150\<rparr>"

text \<open>
  For \<open>GetFile\<close>: a storage that cannot be reached and a WARC reader that is never
  called (the request is issued before either answers).
\<close>

definition no_storage :: "request \<Rightarrow> int \<Rightarrow> error + fasthttp_response" where
  "no_storage req timeout = Inl (Error ''dial tcp: connection refused'')"

definition no_reader :: "bytes \<Rightarrow> error + unit" where
  "no_reader b = Inl (Error ''unexpected EOF'')"

definition no_record :: "unit \<Rightarrow> error + unit" where
  "no_record r = Inl (Error ''unexpected EOF'')"

definition no_content :: "unit \<Rightarrow> bytes \<times> error option" where
  "no_content r = ([], None)"

text \<open>
  For the orchestrators: the page-count decoder knows one body. On the first network
  every attempt is a transport error. On the second, attempt 0 (the page count) answers
  with two pages, attempt 1 (page 0) answers with one record, and every later attempt is
  a transport error. On the third every attempt answers 200 with a body whose read fails
  at once.
\<close>

definition pages_body :: bytes where
  "pages_body = ''{\"pages\":2,\"pageSize\":5,\"blocks\":7}''"

definition example_NumPages :: "bytes \<Rightarrow> error + numPagesResponse" where
  "example_NumPages b =
     (if b = pages_body then Inr \<lparr>Pages = 2, PageSize = 5, Blocks = 7\<rparr>
      else Inl (Error ''invalid json''))"

definition net_down :: network where
  "net_down k u = Failed (Error ''dial tcp: i/o timeout'')"

definition net_then_down :: network where
  "net_then_down k u =
     (if k = 0 then Responded \<lparr>StatusCode = 200, Body = (pages_body, None)\<rparr>
      else if k = 1 then Responded \<lparr>StatusCode = 200, Body = (line_a @ [newline], None)\<rparr>
      else Failed (Error ''dial tcp: i/o timeout''))"

definition net_read_error :: network where
  "net_read_error k u = Responded \<lparr>StatusCode = 200, Body = ([], Some (Error ''unexpected EOF''))\<rparr>"

definition libs_on :: "network \<Rightarrow> libs" where
  "libs_on net =
     \<lparr>client_Get = net, json_Cdx = example_Unmarshal, json_NumPages = example_NumPages,
      time_Format = example_Format\<rparr>"

definition query_all_pages :: RequestConfig where
  "query_all_pages = query_no_dates\<lparr>SinglePage := False\<rparr>"

section \<open>Properties of Get\<close>

lemma get_attempts_all_Failed:
  assumes "\<forall>k. \<exists>e. net k url = Failed e"
  shows "fst (fst (get_attempts net url n clock vars)) = (if n = 0 then fst vars else None)"
  using assms
proof (induction n arbitrary: clock vars)
  case 0
  then show ?case by simp
next
  case (Suc n)
  from Suc.prems obtain e where e: "net clock url = Failed e" by blast
  show ?case
  proof (cases n)
    case 0
    then show ?thesis using e by simp
  next
    case (Suc m)
    then show ?thesis using e Suc.IH [OF Suc.prems, of "Suc clock" "(None, Some e)"] by simp
  qed
qed

lemma Get_all_Failed_Panic:
  assumes "\<forall>k. \<exists>e. net k url = Failed e"
  shows "fst (Get net url timeout maxRetries clock) = Panic"
proof -
  have "fst (fst (get_attempts net url (nat maxRetries) clock (None, None))) = None"
    using assms get_attempts_all_Failed [of net url "nat maxRetries" clock "(None, None)"]
    by simp
  then show ?thesis
    by (auto simp: Get_def split: prod.splits)
qed

text \<open>
  Where every attempt answers with a status other than 200, \<open>Get\<close> returns what
  reading the body of the last answer gives.
\<close>

lemma get_attempts_all_not_200:
  assumes "\<forall>k. net k url = Responded (r k) \<and> StatusCode (r k) \<noteq> 200"
  shows "fst (get_attempts net url (Suc n) clock vars) = (Some (r (clock + n)), None)"
  using assms
proof (induction n arbitrary: clock vars)
  case 0
  then show ?case by simp
next
  case (Suc n)
  have "get_attempts net url (Suc (Suc n)) clock vars
          = get_attempts net url (Suc n) (Suc clock) (Some (r clock), None)"
    using Suc.prems by simp
  then show ?case
    using Suc.prems Suc.IH [of "Suc clock" "(Some (r clock), None)"] by simp
qed

lemma Get_all_not_200:
  assumes "\<forall>k. net k url = Responded (r k) \<and> StatusCode (r k) \<noteq> 200"
    and "0 < maxRetries"
  shows "fst (Get net url timeout maxRetries clock) = Ret (Body (r (clock + nat maxRetries - 1)))"
proof -
  obtain n where n: "nat maxRetries = Suc n"
    using assms(2) by (cases "nat maxRetries") auto
  have "fst (get_attempts net url (Suc n) clock (None, None)) = (Some (r (clock + n)), None)"
    using assms(1) get_attempts_all_not_200 [of net url r n clock "(None, None)"] by simp
  then show ?thesis
    using n by (auto simp: Get_def split: prod.splits)
qed

text \<open>
  C1. The spec has Get return the body or error of the last attempt without a panic when
  every attempt fails. The code does not: with three retries and a network on which every
  attempt is a transport error, \<open>resp\<close> is nil after the loop and \<open>resp.Body\<close>
  panics, after the three attempts were made.
\<close>

theorem Get_every_attempt_fails_panics:
  "Get (\<lambda>k u. Failed (Error ''dial tcp: i/o timeout'')) ''https://index.commoncrawl.org/collinfo.json'' 30 3 0
     = (Panic, 3)"
  by (simp add: Get_def numeral_3_eq_3)

section \<open>Properties of ParseResponse\<close>

declare Split.simps [simp del]

lemma Split_without_sep: "sep \<notin> set s \<Longrightarrow> Split s sep = [s]"
  by (subst Split.simps) simp

lemma Split_at_first_sep:
  assumes "sep \<notin> set l"
  shows "Split (l @ sep # r) sep = l # Split r sep"
proof -
  have keep: "\<And>x. x \<in> set l \<Longrightarrow> x \<noteq> sep"
    using assms by blast
  have t: "takeWhile (\<lambda>c. c \<noteq> sep) (l @ sep # r) = l"
    using keep by (simp add: takeWhile_append2)
  have d: "dropWhile (\<lambda>c. c \<noteq> sep) (l @ sep # r) = sep # r"
    using keep by (simp add: dropWhile_append2)
  show ?thesis
    by (subst Split.simps) (simp add: t d)
qed

text \<open>Lines that are each closed by the separator: without the last byte they split back.\<close>

lemma Split_terminated_lines:
  assumes "\<forall>l\<in>set (l0 # ls). sep \<notin> set l"
  shows "Split (butlast (concat (map (\<lambda>l. l @ [sep]) (l0 # ls)))) sep = l0 # ls"
  using assms
proof (induction ls arbitrary: l0)
  case Nil
  then show ?case
    by (simp add: butlast_append Split_without_sep)
next
  case (Cons l1 ls)
  have ne: "concat (map (\<lambda>l. l @ [sep]) (l1 # ls)) \<noteq> []"
    by simp
  have "butlast (concat (map (\<lambda>l. l @ [sep]) (l0 # l1 # ls)))
          = l0 @ sep # butlast (concat (map (\<lambda>l. l @ [sep]) (l1 # ls)))"
    using ne by (simp add: butlast_append)
  moreover have "sep \<notin> set l0"
    using Cons.prems by simp
  moreover have "Split (butlast (concat (map (\<lambda>l. l @ [sep]) (l1 # ls)))) sep = l1 # ls"
    using Cons.IH [of l1] Cons.prems by simp
  ultimately show ?case
    by (simp add: Split_at_first_sep)
qed

lemma slice_to_drops_last: "resp \<noteq> [] \<Longrightarrow> slice_to resp (int (length resp) - 1) = Ret (butlast resp)"
  by (cases resp rule: rev_cases) (simp_all add: slice_to_def nat_diff_distrib')

lemma ParseResponse_lines:
  "resp \<noteq> [] \<Longrightarrow>
   ParseResponse Unmarshal cc resp = Ret (decode_lines Unmarshal cc (Split (butlast resp) newline) [])"
  by (simp add: ParseResponse_def slice_to_drops_last)

lemma ParseResponse_never_panics: "ParseResponse Unmarshal cc resp \<noteq> Panic"
  by (cases "resp = []") (simp_all add: ParseResponse_def slice_to_drops_last)

lemma decode_lines_all_decoded:
  assumes "\<forall>l\<in>set lines. Unmarshal l = Inr (decoded l)"
  shows "decode_lines Unmarshal cc lines pages
           = (pages @ map (\<lambda>l. (decoded l)\<lparr>Source := Some cc\<rparr>) lines, None)"
  using assms by (induction lines arbitrary: pages) simp_all

lemma decode_lines_first_malformed:
  assumes "\<forall>l\<in>set before. \<exists>r. Unmarshal l = Inr r"
    and "Unmarshal line = Inl e"
  shows "decode_lines Unmarshal cc (before @ line # after) pages
           = ([], Some (Error (''[ParseResponse] Cannot decode JSON line: '' @ msg e
                               @ ''. Response: '' @ line)))"
  using assms
proof (induction before arbitrary: pages)
  case Nil
  then show ?case by simp
next
  case (Cons l before)
  from Cons.prems obtain r where r: "Unmarshal l = Inr r"
    by auto
  have rest: "\<forall>l\<in>set before. \<exists>r. Unmarshal l = Inr r"
    using Cons.prems by simp
  show ?case
    using r Cons.IH [OF rest Cons.prems(2)] by simp
qed

text \<open>
  C6. An input made of one or more lines, each well-formed (it decodes, and it holds no
  newline) and each closed by a newline, the last one too: ParseResponse returns, without
  error, one record per line in the order of the lines, each the record decoded from its
  line with Source set to the provider that decodes.
\<close>

theorem ParseResponse_well_formed_lines:
  assumes "lines \<noteq> []"
    and "\<forall>l\<in>set lines. newline \<notin> set l"
    and "\<forall>l\<in>set lines. Unmarshal l = Inr (decoded l)"
  shows "ParseResponse Unmarshal cc (concat (map (\<lambda>l. l @ [newline]) lines))
           = Ret (map (\<lambda>l. (decoded l)\<lparr>Source := Some cc\<rparr>) lines, None)"
proof -
  from assms(1) obtain l0 ls where lines: "lines = l0 # ls"
    by (cases lines) auto
  have ne: "concat (map (\<lambda>l. l @ [newline]) lines) \<noteq> []"
    using lines by simp
  have "Split (butlast (concat (map (\<lambda>l. l @ [newline]) lines))) newline = lines"
    using Split_terminated_lines [of l0 ls newline] assms(2) lines by simp
  then show ?thesis
    using ParseResponse_lines [OF ne, of Unmarshal cc]
      decode_lines_all_decoded [OF assms(3), of cc "[]"]
    by simp
qed

theorem ParseResponse_well_formed_lines_witness:
  "ParseResponse example_Unmarshal example_cc (line_a @ [newline] @ line_b @ [newline])
   = Ret ([(example_record ''a'' ''100'' ''50'')\<lparr>Source := Some example_cc\<rparr>,
           (example_record ''b'' ''7'' ''9'')\<lparr>Source := Some example_cc\<rparr>], None)"
  using ParseResponse_well_formed_lines
    [of "[line_a, line_b]" example_Unmarshal
        "\<lambda>l. if l = line_a then example_record ''a'' ''100'' ''50''
             else example_record ''b'' ''7'' ''9''" example_cc]
  by (simp add: example_Unmarshal_def newline_def line_a_def line_b_def)

text \<open>
  Lines closed by the separator at the head of a slice split off as they are.
\<close>

lemma Split_terminated_prefix:
  assumes "\<forall>l\<in>set ls. sep \<notin> set l"
  shows "Split (concat (map (\<lambda>l. l @ [sep]) ls) @ r) sep = ls @ Split r sep"
  using assms by (induction ls) (simp_all add: Split_at_first_sep)

lemma Split_nonempty: "Split s sep \<noteq> []"
  by (subst Split.simps) simp

text \<open>
  In terms of the lines that ParseResponse reads (the input without its last byte, cut at
  the newlines): at the first of them that does not decode, ParseResponse fails with the
  decode error of that line and returns no record.
\<close>

lemma ParseResponse_fails_at_line_read:
  assumes "resp \<noteq> []"
    and "Split (butlast resp) newline = before @ line # after"
    and "\<forall>l\<in>set before. \<exists>r. Unmarshal l = Inr r"
    and "Unmarshal line = Inl e"
  shows "ParseResponse Unmarshal cc resp
           = Ret ([], Some (Error (''[ParseResponse] Cannot decode JSON line: '' @ msg e
                                   @ ''. Response: '' @ line)))"
  using ParseResponse_lines [OF assms(1), of Unmarshal cc]
    decode_lines_first_malformed [OF assms(3) assms(4), of cc after "[]"] assms(2)
  by simp

text \<open>
  C7, as the code has it. The input starts with lines that decode, each closed by a
  newline, followed by a malformed line (it does not decode) that is closed by a newline
  too; whatever follows is free. ParseResponse then fails with the decode error of that
  first malformed line, whose message ends with the raw text of the line, and returns no
  record.
\<close>

theorem ParseResponse_first_malformed_line:
  assumes "\<forall>l\<in>set before. newline \<notin> set l \<and> (\<exists>r. Unmarshal l = Inr r)"
    and "newline \<notin> set line"
    and "Unmarshal line = Inl e"
  shows "ParseResponse Unmarshal cc (concat (map (\<lambda>l. l @ [newline]) (before @ [line])) @ rest)
           = Ret ([], Some (Error (''[ParseResponse] Cannot decode JSON line: '' @ msg e
                                   @ ''. Response: '' @ line)))"
proof -
  let ?head = "concat (map (\<lambda>l. l @ [newline]) before)"
  let ?resp = "concat (map (\<lambda>l. l @ [newline]) (before @ [line])) @ rest"
  have resp: "?resp = ?head @ line @ newline # rest"
    by simp
  have free: "\<forall>l\<in>set before. newline \<notin> set l"
    using assms(1) by blast
  have decode: "\<forall>l\<in>set before. \<exists>r. Unmarshal l = Inr r"
    using assms(1) by blast
  have "\<exists>after. Split (butlast ?resp) newline = before @ line # after"
  proof (cases "rest = []")
    case True
    then have "butlast ?resp = ?head @ line"
      by (simp add: butlast_append)
    then have "Split (butlast ?resp) newline = before @ [line]"
      using Split_terminated_prefix [OF free, of line] Split_without_sep [OF assms(2)]
      by simp
    then show ?thesis
      by simp
  next
    case False
    then have "butlast ?resp = ?head @ line @ newline # butlast rest"
      by (simp add: butlast_append)
    then have "Split (butlast ?resp) newline = before @ line # Split (butlast rest) newline"
      using Split_terminated_prefix [OF free, of "line @ newline # butlast rest"]
        Split_at_first_sep [OF assms(2), of "butlast rest"]
      by simp
    then show ?thesis
      by blast
  qed
  then obtain after where "Split (butlast ?resp) newline = before @ line # after"
    by blast
  moreover have "?resp \<noteq> []"
    by simp
  ultimately show ?thesis
    using ParseResponse_fails_at_line_read [of ?resp before line after Unmarshal e cc]
      decode assms(3)
    by blast
qed

theorem ParseResponse_first_malformed_line_witness:
  "ParseResponse example_Unmarshal example_cc
     (line_a @ [newline] @ ''{broken'' @ [newline] @ line_b)
   = Ret ([], Some (Error ''[ParseResponse] Cannot decode JSON line: invalid json. Response: {broken''))"
  using ParseResponse_first_malformed_line
    [of "[line_a]" "example_Unmarshal :: bytes \<Rightarrow> error + CommonCrawl CdxResponse"
        "''{broken''" "Error ''invalid json''" example_cc line_b]
  by (simp add: example_Unmarshal_def newline_def line_a_def line_b_def)

text \<open>
  An input whose only line is malformed and not closed by a newline: the record line
  followed by a second closing brace. ParseResponse drops the last byte whatever it is,
  what is left decodes, and the call returns one record and no error.
\<close>

theorem ParseResponse_unterminated_malformed_line_accepted:
  "(example_Unmarshal (line_a @ ''}'') :: error + CommonCrawl CdxResponse)
     = Inl (Error ''invalid json'')
   \<and> ParseResponse example_Unmarshal example_cc (line_a @ ''}'')
     = Ret ([(example_record ''a'' ''100'' ''50'')\<lparr>Source := Some example_cc\<rparr>], None)"
  by code_simp

text \<open>
  With a malformed last line that is not closed by a newline and stays malformed without
  its last byte, the call fails, but the message holds the line without its last byte.
\<close>

lemma ParseResponse_unterminated_line_message:
  "ParseResponse example_Unmarshal example_cc (line_a @ [newline] @ ''{broken'')
     = Ret ([], Some (Error ''[ParseResponse] Cannot decode JSON line: invalid json. Response: {broke''))"
  by code_simp

text \<open>
  C8. On an input of length zero ParseResponse returns (it does not panic) the error
  "Empty response provided" and no record.
\<close>

theorem ParseResponse_empty_input:
  "ParseResponse Unmarshal cc [] = Ret ([], Some (Error ''Empty response provided''))"
  by (simp add: ParseResponse_def)

section \<open>Properties of GetUrl\<close>



declare show_uint.simps [simp del]


text \<open>
  The text after \<open>from=\<close> is that of \<open>Format\<close>, which reads the location: the same
  instant in New York prints the day before.
\<close>

lemma GetUrl_location_example:
  "GetUrl example_Format
     (example_config\<lparr>FromDate := \<lparr>instant = 63808128000, location = ''America/New_York''\<rparr>\<rparr>)
     ''https://index.commoncrawl.org/CC-MAIN-2023-14-index'' 2
     = ''https://index.commoncrawl.org/CC-MAIN-2023-14-index?url=example.com/*&output=json&limit=5&collapse=urlkey&filter=mime:text/html&from=20221231&page=2''"
  by code_simp

section \<open>Properties of filterIndices\<close>

lemma filter_loop_filter:
  "filter_loop config idxs indices
     = indices @ map Id' (filter (\<lambda>idx.
         \<not> (\<not> IsZero (FromDate config) \<and> After (FromDate config) (From idx))
         \<and> \<not> (\<not> IsZero (ToDate config) \<and> Before (ToDate config) (To idx))) idxs)"
  by (induction idxs arbitrary: indices) simp_all

text \<open>
  C4, as the code has it. With both bounds unset and a snapshot list that is not empty,
  filterIndices returns the list of one element, the id of the first snapshot. With a
  bound set it returns, in the order of the list, the ids of exactly the snapshots that
  are neither excluded by a set fromDate after the snapshot's start nor by a set toDate
  before the snapshot's end.
\<close>

theorem filterIndices_selection:
  "(IsZero (FromDate config) \<and> IsZero (ToDate config) \<and> indexes cc \<noteq> [] \<longrightarrow>
      filterIndices cc config = Ret [Id' (hd (indexes cc))])
   \<and> (\<not> (IsZero (FromDate config) \<and> IsZero (ToDate config)) \<longrightarrow>
      filterIndices cc config
        = Ret (map Id' (filter (\<lambda>idx.
            \<not> (\<not> IsZero (FromDate config) \<and> After (FromDate config) (From idx))
            \<and> \<not> (\<not> IsZero (ToDate config) \<and> Before (ToDate config) (To idx)))
            (indexes cc))))"
proof (intro conjI impI)
  assume a: "IsZero (FromDate config) \<and> IsZero (ToDate config) \<and> indexes cc \<noteq> []"
  then obtain idx rest where "indexes cc = idx # rest"
    by (cases "indexes cc") auto
  then show "filterIndices cc config = Ret [Id' (hd (indexes cc))]"
    using a by (simp add: filterIndices_def)
next
  assume "\<not> (IsZero (FromDate config) \<and> IsZero (ToDate config))"
  then show "filterIndices cc config
        = Ret (map Id' (filter (\<lambda>idx.
            \<not> (\<not> IsZero (FromDate config) \<and> After (FromDate config) (From idx))
            \<and> \<not> (\<not> IsZero (ToDate config) \<and> Before (ToDate config) (To idx)))
            (indexes cc)))"
    using filter_loop_filter [of config "indexes cc" "[]"]
    by (auto simp: filterIndices_def)
qed

theorem filterIndices_selection_witness:
  "filterIndices example_catalog query_no_dates = Ret [''CC-MAIN-2023-50'']
   \<and> filterIndices example_catalog query_window = Ret [''CC-MAIN-2023-40'']"
  using filterIndices_selection [of query_no_dates example_catalog]
    filterIndices_selection [of query_window example_catalog]
  by (simp add: example_catalog_def query_no_dates_def query_window_def
        utc_def IsZero_def After_def Before_def)

text \<open>
  With both bounds unset and an empty snapshot list (collinfo.json holding the empty
  array) there is no first snapshot: \<open>cc.indexes[0]\<close> panics.
\<close>

theorem filterIndices_empty_catalog_panics:
  "filterIndices \<lparr>MaxTimeout = 30, MaxRetries = 3, indexes = []\<rparr>
     \<lparr>URL = ''example.com'', Filters = [], Limit = 0, CollapseColumn = '''',
      SinglePage = True, FromDate = utc 0, ToDate = utc 0\<rparr> = Panic"
  by (simp add: filterIndices_def IsZero_def utc_def)

section \<open>Properties of GetFile\<close>

lemma wrap_int_fits: "fits_int i \<Longrightarrow> wrap_int i = i"
  by (simp add: wrap_int_def fits_int_def)

lemma wrap_twice:
  fixes a m h :: int
  shows "((a mod m - h) + 1 + h) mod m - h = (a + 1) mod m - h"
  by (simp add: mod_add_left_eq)

lemma wrap_int_add_one: "wrap_int (wrap_int x + 1) = wrap_int (x + 1)"
  using wrap_twice [of "x + 2 ^ 63" "2 ^ 64" "2 ^ 63"]
  by (simp add: wrap_int_def add.commute add.left_commute)

lemma Atoi_decimal:
  assumes "decimal_string s" and "fits_int (decimal_value s)"
  shows "Atoi s = decimal_value s"
proof -
  obtain neg ds where p: "split_sign s = (neg, ds)"
    by (cases "split_sign s") auto
  have ds: "ds \<noteq> []" "list_all is_digit ds"
    using assms(1) p by (simp_all add: decimal_string_def)
  show ?thesis
  proof (cases neg)
    case True
    then have "- (2 ^ 63) \<le> - int (digits_val ds)"
      using assms(2) p by (simp add: decimal_value_def fits_int_def)
    then have "\<not> digits_val ds > 2 ^ 63"
      by simp
    then show ?thesis
      using True p ds by (simp add: Atoi_def decimal_value_def)
  next
    case False
    then have "int (digits_val ds) < 2 ^ 63"
      using assms(2) p by (simp add: decimal_value_def fits_int_def)
    then have "\<not> digits_val ds \<ge> 2 ^ 63"
      by simp
    then show ?thesis
      using False p ds by (simp add: Atoi_def decimal_value_def)
  qed
qed

lemma DoRequest_request:
  "fst (DoRequest DoTimeout userAgent url timeout headers)
     = \<lparr>RequestURI = url, Method = ''GET'', Header = [''User-Agent'' \<mapsto> userAgent] ++ headers\<rparr>"
  by (simp add: DoRequest_def Let_def split: sum.splits)

lemma GetFile_request:
  "fst (GetFile DoTimeout userAgent NewReader ReadRecord ReadAll cc page)
     = fst (DoRequest DoTimeout userAgent (CRAWL_STORAGE @ Filename page) (MaxTimeout cc)
              [''Range'' \<mapsto> ''bytes='' @ Offset page @ ''-''
                 @ show_int (wrap_int (wrap_int (Atoi (Offset page) + Atoi (Length page)) + 1))])"
  by (simp add: GetFile_def Let_def split: prod.splits option.splits sum.splits)

text \<open>
  C9, as the code has it. For a record whose offset and length are decimal integer
  strings whose values, and their sum plus one, fit a 64-bit \<open>int\<close>, GetFile issues one
  request, to the storage URL of the file, whose Range header is "bytes=", the offset
  string as given, "-", and offset + length + 1 in decimal.
\<close>

theorem GetFile_range_header:
  assumes "decimal_string (Offset page)" and "decimal_string (Length page)"
    and "fits_int (decimal_value (Offset page))" and "fits_int (decimal_value (Length page))"
    and "fits_int (decimal_value (Offset page) + decimal_value (Length page) + 1)"
  shows "RequestURI (fst (GetFile DoTimeout userAgent NewReader ReadRecord ReadAll cc page))
           = CRAWL_STORAGE @ Filename page
         \<and> Header (fst (GetFile DoTimeout userAgent NewReader ReadRecord ReadAll cc page)) ''Range''
           = Some (''bytes='' @ Offset page @ ''-''
                   @ show_int (decimal_value (Offset page) + decimal_value (Length page) + 1))"
proof -
  have "wrap_int (wrap_int (Atoi (Offset page) + Atoi (Length page)) + 1)
          = decimal_value (Offset page) + decimal_value (Length page) + 1"
    using assms by (simp add: Atoi_decimal wrap_int_add_one wrap_int_fits)
  then show ?thesis
    by (simp add: GetFile_request DoRequest_request)
qed

theorem GetFile_range_header_witness:
  "Header (fst (GetFile no_storage ''Mozilla/5.0'' no_reader no_record no_content example_cc
                  ((example_record ''a'' ''100'' ''50'')\<lparr>Source := Some example_cc\<rparr>))) ''Range''
     = Some ''bytes=100-151''"
proof -
  have d: "decimal_string ''100''" "decimal_string ''50''"
    by (simp_all add: decimal_string_def split_sign_def is_digit_def)
  have v: "decimal_value ''100'' = 100" "decimal_value ''50'' = 50"
    by (simp_all add: decimal_value_def split_sign_def digits_val_def digit_val_def)
  show ?thesis
    using GetFile_range_header
      [of "(example_record ''a'' ''100'' ''50'')\<lparr>Source := Some example_cc\<rparr>"
          no_storage "''Mozilla/5.0''" no_reader no_record no_content example_cc]
      d v
    by (simp add: example_record_def fits_int_def show_int_def show_uint.simps digit_char_def)
qed

text \<open>
  The offset 9223372036854775807 (the largest \<open>int\<close>) with length 0: the sum plus one is
  9223372036854775808, but the addition wraps around and the header names the negative
  end -9223372036854775808.
\<close>

theorem GetFile_range_end_wraps:
  "Header (fst (GetFile no_storage ''Mozilla/5.0'' no_reader no_record no_content example_cc
                  ((example_record ''a'' ''9223372036854775807'' ''0'')\<lparr>Source := Some example_cc\<rparr>))) ''Range''
     = Some ''bytes=9223372036854775807--9223372036854775808''
   \<and> decimal_string ''9223372036854775807'' \<and> decimal_string ''0''
   \<and> decimal_value ''9223372036854775807'' + decimal_value ''0'' + 1 = 9223372036854775808"
proof -
  have a: "Atoi ''9223372036854775807'' = 9223372036854775807" "Atoi ''0'' = 0"
    by (simp_all add: Atoi_def split_sign_def is_digit_def digits_val_def digit_val_def)
  have w: "wrap_int (wrap_int (9223372036854775807 + 0) + 1) = - 9223372036854775808"
    by (simp add: wrap_int_def)
  have s: "show_int (- 9223372036854775808) = ''-9223372036854775808''"
    by (simp add: show_int_def show_uint.simps digit_char_def)
  have d: "decimal_string ''9223372036854775807''" "decimal_string ''0''"
    by (simp_all add: decimal_string_def split_sign_def is_digit_def)
  have v: "decimal_value ''9223372036854775807'' + decimal_value ''0'' + 1 = 9223372036854775808"
    by (simp add: decimal_value_def split_sign_def digits_val_def digit_val_def)
  show ?thesis
    using a w s d v
    by (simp add: GetFile_request DoRequest_request example_record_def)
qed

section \<open>Properties of GetPagesIndex\<close>

declare get_pages_loop.simps [simp del]
declare fetch_pages_loop.simps [simp del]

text \<open>
  Where \<open>Get\<close> returns an error for a page, or the body does not decode, the loop of
  \<open>GetPagesIndex\<close> returns at once with the error and the records gathered so far.
\<close>

lemma get_pages_loop_request_error:
  assumes "page < pages"
    and "Get (client_Get L) (GetUrl (time_Format L) config (INDEX_SERVER @ index @ ''-index'') page)
           (MaxTimeout cc) (MaxRetries cc) clock = (Ret (response, Some e), clock')"
  shows "get_pages_loop L cc config index pages page results numResults clock
           = (Ret (results, Some (Error (''[GetPagesIndex] Request error: '' @ msg e))), clock')"
  using assms by (subst get_pages_loop.simps) simp

lemma get_pages_loop_decode_error:
  assumes "page < pages"
    and "Get (client_Get L) (GetUrl (time_Format L) config (INDEX_SERVER @ index @ ''-index'') page)
           (MaxTimeout cc) (MaxRetries cc) clock = (Ret (response, None), clock')"
    and "ParseResponse (json_Cdx L) cc response = Ret (parsed, Some e)"
  shows "get_pages_loop L cc config index pages page results numResults clock
           = (Ret (results, Some (Error (''[GetPagesIndex] Cannot parse response: '' @ msg e))), clock')"
  using assms by (subst get_pages_loop.simps) simp

text \<open>
  C5. The spec has a request failure on any page abort GetPagesIndex with the error and
  the records gathered so far. The code does not when the request fails in transport:
  with two pages, page 0 answered with one record and every attempt for page 1 a
  transport error, \<open>Get\<close> panics (the defect of C1) and the call returns neither the
  error nor the record of page 0.
\<close>

theorem GetPagesIndex_transport_failure_panics:
  "GetPagesIndex (libs_on net_then_down) example_catalog query_all_pages ''CC-MAIN-2023-50'' 0
     = (Panic, 5)"
  by code_simp

section \<open>Properties of FetchPages\<close>

lemma decode_lines_error_no_records:
  "snd (decode_lines Unmarshal cc lines pages) \<noteq> None
     \<Longrightarrow> fst (decode_lines Unmarshal cc lines pages) = []"
  by (induction lines arbitrary: pages) (auto split: sum.splits)

lemma ParseResponse_error_no_records:
  assumes "ParseResponse Unmarshal cc resp = Ret (parsed, Some e)"
  shows "parsed = []"
proof (cases "resp = []")
  case True
  then show ?thesis
    using assms by (simp add: ParseResponse_def)
next
  case False
  then have "decode_lines Unmarshal cc (Split (butlast resp) newline) [] = (parsed, Some e)"
    using assms by (simp add: ParseResponse_lines)
  then show ?thesis
    using decode_lines_error_no_records [of Unmarshal cc "Split (butlast resp) newline" "[]"]
    by simp
qed

lemma ParseResponse_returns: "\<exists>parsed perr. ParseResponse Unmarshal cc resp = Ret (parsed, perr)"
  using ParseResponse_never_panics [of Unmarshal cc resp]
  by (cases "ParseResponse Unmarshal cc resp") auto

text \<open>
  The early return of \<open>FetchPages\<close> is taken only at a limit that is not 0 and that the
  count of records has reached.
\<close>

lemma fetch_page_LimitReached:
  assumes "fetch_page L cc config indexURL page st = (LimitReached, sent', numResults', clock')"
  shows "Limit config \<noteq> 0 \<and> Limit config \<le> numResults'"
  using assms
  by (auto simp: fetch_page_def Let_def split: prod.splits go.splits if_splits)

lemma fetch_pages_loop_LimitReached:
  "fetch_pages_loop L cc config indexURL pages page st = (LimitReached, sent', numResults', clock')
     \<Longrightarrow> Limit config \<noteq> 0 \<and> Limit config \<le> numResults'"
proof (induction L cc config indexURL pages page st rule: fetch_pages_loop.induct)
  case (1 L cc config indexURL pages page st)
  show ?case
  proof (cases "page < pages")
    case False
    then show ?thesis
      using "1.prems" by (subst (asm) fetch_pages_loop.simps) simp
  next
    case True
    obtain e st1 where f: "fetch_page L cc config indexURL page st = (e, st1)"
      by (cases "fetch_page L cc config indexURL page st") auto
    show ?thesis
    proof (cases e)
      case Finished
      then have "fetch_pages_loop L cc config indexURL pages (page + 1) st1
                   = (LimitReached, sent', numResults', clock')"
        using "1.prems" True f by (subst (asm) fetch_pages_loop.simps) simp
      then show ?thesis
        using "1.IH" [OF True f [symmetric, unfolded Finished] refl] Finished f by simp
    next
      case LimitReached
      then have "st1 = (sent', numResults', clock')"
        using "1.prems" True f by (subst (asm) fetch_pages_loop.simps) simp
      then show ?thesis
        using fetch_page_LimitReached [of L cc config indexURL page st sent' numResults' clock']
          f LimitReached by simp
    next
      case Panicked
      then show ?thesis
        using "1.prems" True f by (subst (asm) fetch_pages_loop.simps) simp
    qed
  qed
qed

text \<open>
  Where \<open>Get\<close> returns for a page, with an error or without, and no limit is set, the
  body of the loop runs to its end and the loop goes on with the next page.
\<close>

lemma fetch_pages_loop_goes_on:
  assumes "page < pages"
    and "Get (client_Get L) (GetUrl (time_Format L) config indexURL page)
           (MaxTimeout cc) (MaxRetries cc) clock = (Ret (response, err), clock')"
    and "Limit config = 0"
  shows "\<exists>st'. fetch_page L cc config indexURL page (sent, numResults, clock) = (Finished, st')
           \<and> fetch_pages_loop L cc config indexURL pages page (sent, numResults, clock)
             = fetch_pages_loop L cc config indexURL pages (page + 1) st'"
proof -
  obtain parsed perr where p: "ParseResponse (json_Cdx L) cc response = Ret (parsed, perr)"
    using ParseResponse_returns [of "json_Cdx L" cc response] by blast
  have "fst (fetch_page L cc config indexURL page (sent, numResults, clock)) = Finished"
    using assms(2,3) p by (simp add: fetch_page_def Let_def)
  then obtain st' where f: "fetch_page L cc config indexURL page (sent, numResults, clock) = (Finished, st')"
    by (cases "fetch_page L cc config indexURL page (sent, numResults, clock)") auto
  then show ?thesis
    using assms(1) by (subst fetch_pages_loop.simps) simp
qed

text \<open>
  C2. The spec has the error of a failed page fetch sent on the error channel and the
  loop go on. The code does not when the fetch fails in transport: with two snapshots
  selected and every attempt a transport error, \<open>Get\<close> panics (the defect of C1) in
  the first page of the first snapshot after its three attempts; nothing is sent on
  either channel and the second snapshot is not tried.
\<close>

theorem FetchPages_transport_failure_panics:
  "filterIndices example_catalog query_from = Ret [''CC-MAIN-2023-50'', ''CC-MAIN-2023-40'']
   \<and> FetchPages (libs_on net_down) example_catalog query_from 0 = (Panicked, [], 0, 3)"
  by code_simp

text \<open>
  For every page whose request returns from \<open>Get\<close>, with an error or without, the body
  of the loop sends exactly one value on the results channel, last: after the request
  error, if any, and after the decode error, if any, it sends what ParseResponse
  returned, which is the empty (nil) batch when decoding failed.
\<close>

lemma fetch_page_sends_results:
  assumes "Get (client_Get L) (GetUrl (time_Format L) config indexURL page)
             (MaxTimeout cc) (MaxRetries cc) clock = (Ret (response, err), clock')"
  shows "\<exists>parsed perr.
           ParseResponse (json_Cdx L) cc response = Ret (parsed, perr)
           \<and> (perr \<noteq> None \<longrightarrow> parsed = [])
           \<and> fst (snd (fetch_page L cc config indexURL page (sent, numResults, clock)))
               = sent
                 @ (case err of
                      None \<Rightarrow> []
                    | Some e \<Rightarrow> [ErrorSent (Error (''[FetchPages] Request error: '' @ msg e))])
                 @ (case perr of
                      None \<Rightarrow> []
                    | Some e \<Rightarrow> [ErrorSent (Error (''[FetchPages] Cannot parse response: '' @ msg e))])
                 @ [ResultsSent parsed]"
proof -
  obtain parsed perr where p: "ParseResponse (json_Cdx L) cc response = Ret (parsed, perr)"
    using ParseResponse_returns [of "json_Cdx L" cc response] by blast
  have nil: "perr \<noteq> None \<longrightarrow> parsed = []"
    using ParseResponse_error_no_records p by (cases perr) auto
  have "fst (snd (fetch_page L cc config indexURL page (sent, numResults, clock)))
          = sent
            @ (case err of
                 None \<Rightarrow> []
               | Some e \<Rightarrow> [ErrorSent (Error (''[FetchPages] Request error: '' @ msg e))])
            @ (case perr of
                 None \<Rightarrow> []
               | Some e \<Rightarrow> [ErrorSent (Error (''[FetchPages] Cannot parse response: '' @ msg e))])
            @ [ResultsSent parsed]"
    using assms p by (simp add: fetch_page_def Let_def split: option.splits)
  then show ?thesis
    using p nil by blast
qed

text \<open>
  An example: the body of the answer cannot be read. Both errors are sent, then the empty
  batch.
\<close>

lemma fetch_page_sends_results_example:
  "fst (snd (fetch_page (libs_on net_read_error) example_catalog query_no_dates
               ''https://index.commoncrawl.org/CC-MAIN-2023-50-index'' 0 ([], 0, 0)))
     = [ErrorSent (Error ''[FetchPages] Request error: unexpected EOF''),
        ErrorSent (Error ''[FetchPages] Cannot parse response: Empty response provided''),
        ResultsSent []]"
proof -
  have g: "Get (client_Get (libs_on net_read_error))
             (GetUrl (time_Format (libs_on net_read_error)) query_no_dates
                ''https://index.commoncrawl.org/CC-MAIN-2023-50-index'' 0)
             (MaxTimeout example_catalog) (MaxRetries example_catalog) 0
           = (Ret ([], Some (Error ''unexpected EOF'')), 1)"
    by code_simp
  have q: "ParseResponse (json_Cdx (libs_on net_read_error)) example_catalog []
             = Ret ([], Some (Error ''Empty response provided''))"
    by (simp add: ParseResponse_def)
  from fetch_page_sends_results [OF g, of "[]" 0]
  obtain parsed perr where
    "ParseResponse (json_Cdx (libs_on net_read_error)) example_catalog [] = Ret (parsed, perr)"
    and s: "fst (snd (fetch_page (libs_on net_read_error) example_catalog query_no_dates
                 ''https://index.commoncrawl.org/CC-MAIN-2023-50-index'' 0 ([], 0, 0)))
       = []
         @ (case Some (Error ''unexpected EOF'') of
              None \<Rightarrow> []
            | Some e \<Rightarrow> [ErrorSent (Error (''[FetchPages] Request error: '' @ msg e))])
         @ (case perr of
              None \<Rightarrow> []
            | Some e \<Rightarrow> [ErrorSent (Error (''[FetchPages] Cannot parse response: '' @ msg e))])
         @ [ResultsSent parsed]"
    by blast
  then have "parsed = []" "perr = Some (Error ''Empty response provided'')"
    using q by simp_all
  then show ?thesis
    using s by simp
qed

text \<open>
  C3. The code sends a value on the results channel in every page iteration that reaches
  its sends, a failed page included (\<open>fetch_page_sends_results\<close>). A page whose request
  fails in transport does not reach them: of the two pages of the snapshot, page 0 sends
  its batch, and in page 1 \<open>Get\<close> panics (the defect of C1) before either channel is
  used, so this iterated page sends no value.
\<close>

theorem FetchPages_second_page_sends_nothing:
  "FetchPages (libs_on net_then_down) example_catalog query_all_pages 0
     = (Panicked,
        [ResultsSent [(example_record ''a'' ''100'' ''50'')\<lparr>Source := Some example_catalog\<rparr>]],
        1, 5)"
  by code_simp

end
